theory Spec2Isabelle
  imports Complex_Main
begin

section \<open>JavaScript numbers\<close>

text \<open>
  A JavaScript \<open>number\<close> is an IEEE double: a real number, or one of the three special
  values \<open>Infinity\<close>, \<open>-Infinity\<close> and \<open>NaN\<close>. The sign of zero is not modelled.

  The operations come in two layers. \<open>jadd\<close>, \<open>jsub\<close>, \<open>jmul\<close> and \<open>jdiv\<close> give the
  exact result of an operation, with the special values treated as IEEE treats them;
  division is written out, because \<open>x / 0\<close> is \<open>0\<close> in HOL and \<open>Infinity\<close> or \<open>NaN\<close> in
  JavaScript. \<open>fadd\<close>, \<open>fsub\<close>, \<open>fmul\<close> and \<open>fdiv\<close> further down are the operations of the
  machine: the exact result rounded to the nearest double, \<open>Infinity\<close> when it is out of
  range.

  \<open>calculateEMA\<close>, \<open>calculateMACD\<close> and \<open>calculateVWAP\<close> are written with the operations of
  the machine. \<open>calculateRSI\<close>, \<open>calculateSMA\<close> and \<open>calculateATR\<close> are written with the exact
  operations: what is stated about them below is stated on real arithmetic, without
  rounding and without overflow. The mock data of the services is computed on real
  numbers as well; no statement below depends on its digits.
\<close>

datatype jsnum = Fin real | PInf | NInf | NaN

fun jneg :: "jsnum \<Rightarrow> jsnum" where
  "jneg (Fin a) = Fin (- a)"
| "jneg PInf = NInf"
| "jneg NInf = PInf"
| "jneg NaN = NaN"

fun jadd :: "jsnum \<Rightarrow> jsnum \<Rightarrow> jsnum" where
  "jadd NaN _ = NaN"
| "jadd _ NaN = NaN"
| "jadd (Fin a) (Fin b) = Fin (a + b)"
| "jadd PInf NInf = NaN"
| "jadd NInf PInf = NaN"
| "jadd PInf _ = PInf"
| "jadd _ PInf = PInf"
| "jadd NInf _ = NInf"
| "jadd _ NInf = NInf"

definition jsub :: "jsnum \<Rightarrow> jsnum \<Rightarrow> jsnum" where
  "jsub a b = jadd a (jneg b)"

text \<open>The sign of an infinite product or quotient: \<open>True\<close> is positive.\<close>

definition jinf :: "bool \<Rightarrow> jsnum" where
  "jinf pos = (if pos then PInf else NInf)"

fun jmul :: "jsnum \<Rightarrow> jsnum \<Rightarrow> jsnum" where
  "jmul NaN _ = NaN"
| "jmul _ NaN = NaN"
| "jmul (Fin a) (Fin b) = Fin (a * b)"
| "jmul (Fin a) PInf = (if a = 0 then NaN else jinf (0 < a))"
| "jmul (Fin a) NInf = (if a = 0 then NaN else jinf (a < 0))"
| "jmul PInf (Fin b) = (if b = 0 then NaN else jinf (0 < b))"
| "jmul NInf (Fin b) = (if b = 0 then NaN else jinf (b < 0))"
| "jmul PInf PInf = PInf"
| "jmul PInf NInf = NInf"
| "jmul NInf PInf = NInf"
| "jmul NInf NInf = PInf"

fun jdiv :: "jsnum \<Rightarrow> jsnum \<Rightarrow> jsnum" where
  "jdiv NaN _ = NaN"
| "jdiv _ NaN = NaN"
| "jdiv (Fin a) (Fin b) =
     (if b \<noteq> 0 then Fin (a / b) else if a = 0 then NaN else jinf (0 < a))"
| "jdiv (Fin a) PInf = Fin 0"
| "jdiv (Fin a) NInf = Fin 0"
| "jdiv PInf (Fin b) = jinf (0 \<le> b)"
| "jdiv NInf (Fin b) = jinf (b < 0)"
| "jdiv PInf PInf = NaN"
| "jdiv PInf NInf = NaN"
| "jdiv NInf PInf = NaN"
| "jdiv NInf NInf = NaN"

text \<open>\<open>a < b\<close> of JavaScript: false as soon as one side is \<open>NaN\<close>.\<close>

fun jlt :: "jsnum \<Rightarrow> jsnum \<Rightarrow> bool" where
  "jlt NaN _ = False"
| "jlt _ NaN = False"
| "jlt (Fin a) (Fin b) = (a < b)"
| "jlt _ NInf = False"
| "jlt NInf _ = True"
| "jlt PInf _ = False"
| "jlt _ PInf = True"

definition jgt :: "jsnum \<Rightarrow> jsnum \<Rightarrow> bool" where
  "jgt a b = jlt b a"

text \<open>\<open>Math.max\<close>, \<open>Math.min\<close> and \<open>Math.abs\<close>: \<open>NaN\<close> is contagious.\<close>

definition jmax :: "jsnum \<Rightarrow> jsnum \<Rightarrow> jsnum" where
  "jmax a b = (if a = NaN \<or> b = NaN then NaN else if jlt a b then b else a)"

definition jmin :: "jsnum \<Rightarrow> jsnum \<Rightarrow> jsnum" where
  "jmin a b = (if a = NaN \<or> b = NaN then NaN else if jlt b a then b else a)"

fun jabs :: "jsnum \<Rightarrow> jsnum" where
  "jabs (Fin a) = Fin \<bar>a\<bar>"
| "jabs PInf = PInf"
| "jabs NInf = PInf"
| "jabs NaN = NaN"





text \<open>\<open>xs.reduce((sum, x) => sum + x, 0)\<close>.\<close>

definition jsum :: "jsnum list \<Rightarrow> jsnum" where
  "jsum xs = foldl jadd (Fin 0) xs"


subsection \<open>The operations of the machine\<close>









section \<open>TechnicalAnalysisService\<close>

subsection \<open>calculateRSI\<close>

text \<open>The first loop: one gain and one loss per consecutive pair of prices.\<close>

definition changes :: "jsnum list \<Rightarrow> jsnum list" where
  "changes prices = map (\<lambda>i. jsub (prices ! i) (prices ! (i - 1))) [1..<length prices]"

definition gain_of :: "jsnum \<Rightarrow> jsnum" where
  "gain_of change = (if jgt change (Fin 0) then change else Fin 0)"

definition loss_of :: "jsnum \<Rightarrow> jsnum" where
  "loss_of change = (if jlt change (Fin 0) then jabs change else Fin 0)"

text \<open>One round of the smoothing loop, on the pair (avgGain, avgLoss).\<close>

definition smooth :: "nat \<Rightarrow> jsnum \<times> jsnum \<Rightarrow> jsnum \<times> jsnum \<Rightarrow> jsnum \<times> jsnum" where
  "smooth period avg gl =
     (jdiv (jadd (jmul (fst avg) (Fin (real period - 1))) (fst gl)) (Fin (real period)),
      jdiv (jadd (jmul (snd avg) (Fin (real period - 1))) (snd gl)) (Fin (real period)))"

definition calculateRSI :: "jsnum list \<Rightarrow> nat \<Rightarrow> jsnum" where
  "calculateRSI prices period =
     (if length prices < period + 1 then Fin 50
      else
        let gains = map gain_of (changes prices);
            losses = map loss_of (changes prices);
            avgGain = jdiv (jsum (take period gains)) (Fin (real period));
            avgLoss = jdiv (jsum (take period losses)) (Fin (real period));
            avg = foldl (smooth period) (avgGain, avgLoss) (drop period (zip gains losses));
            rs = jdiv (fst avg) (snd avg);
            rsi = jsub (Fin 100) (jdiv (Fin 100) (jadd (Fin 1) rs))
        in jmax (Fin 0) (jmin (Fin 100) rsi))"

subsection \<open>calculateEMA and calculateSMA\<close>




subsection \<open>calculateMACD\<close>

record macd_result =
  macd :: jsnum
  signal :: jsnum
  histogram :: jsnum


subsection \<open>calculateATR\<close>




subsection \<open>calculateVWAP\<close>



subsection \<open>trendDirection\<close>

datatype trend = Bullish | Bearish | Neutral

definition trendDirection :: "jsnum list \<Rightarrow> jsnum \<Rightarrow> jsnum \<Rightarrow> trend" where
  "trendDirection prices sma20 sma50 =
     (if length prices < 2 then Neutral
      else
        let currentPrice = prices ! (length prices - 1);
            shortTermTrend = (if jgt currentPrice sma20 then 1 else - 1 :: int);
            longTermTrend = (if jgt sma20 sma50 then 1 else - 1 :: int)
        in if shortTermTrend > 0 \<and> longTermTrend > 0 then Bullish
           else if shortTermTrend < 0 \<and> longTermTrend < 0 then Bearish
           else Neutral)"


section \<open>Values received from the exchange\<close>

text \<open>
  A parsed JSON response is \<open>any\<close> in the source. \<open>JUndef\<close> stands for both \<open>null\<close> and
  \<open>undefined\<close>: the code only tests them for truthiness and reads properties of them,
  and they behave alike in both.
\<close>

datatype jsv =
    JUndef
  | JBool bool
  | JNum real
  | JStr string
  | JArr "jsv list"
  | JObj "(string \<times> jsv) list"

fun truthy :: "jsv \<Rightarrow> bool" where
  "truthy JUndef = False"
| "truthy (JBool b) = b"
| "truthy (JNum r) = (r \<noteq> 0)"
| "truthy (JStr s) = (s \<noteq> [])"
| "truthy (JArr xs) = True"
| "truthy (JObj kvs) = True"

text \<open>\<open>a || b\<close>.\<close>

definition orJ :: "jsv \<Rightarrow> jsv \<Rightarrow> jsv" where
  "orJ a b = (if truthy a then a else b)"

text \<open>
  \<open>v.k\<close> for the property names the code reads, on a value that is not \<open>null\<close>: an
  object answers with its entry, every other value with \<open>undefined\<close>.
\<close>

fun field :: "jsv \<Rightarrow> string \<Rightarrow> jsv" where
  "field (JObj kvs) k = (case map_of kvs k of Some v \<Rightarrow> v | None \<Rightarrow> JUndef)"
| "field v k = JUndef"

fun show_nat :: "nat \<Rightarrow> string" where
  "show_nat n =
     (if n < 10 then [''0123456789'' ! n]
      else show_nat (n div 10) @ [''0123456789'' ! (n mod 10)])"

declare show_nat.simps [simp del]

definition show_int :: "int \<Rightarrow> string" where
  "show_int i = (if i < 0 then ''-'' @ show_nat (nat (- i)) else show_nat (nat i))"

text \<open>
  \<open>v[i]\<close>: \<open>None\<close> is the TypeError that reading a property of \<open>null\<close> throws.
\<close>

fun idx :: "jsv \<Rightarrow> nat \<Rightarrow> jsv option" where
  "idx JUndef i = None"
| "idx (JArr xs) i = Some (if i < length xs then xs ! i else JUndef)"
| "idx (JStr s) i = Some (if i < length s then JStr [s ! i] else JUndef)"
| "idx (JObj kvs) i = Some (field (JObj kvs) (show_nat i))"
| "idx v i = Some JUndef"

text \<open>
  \<open>parseFloat\<close> and \<open>parseInt\<close> first turn their argument into a string. How a string
  of characters reads as a number is the runtime's business and is a parameter here
  (\<open>dec\<close>); a number reads as itself (for \<open>parseInt\<close>, cut towards zero, as it is for
  the magnitudes a price or a timestamp has); an array reads as its first element does.
\<close>

fun parseFloat :: "(string \<Rightarrow> jsnum) \<Rightarrow> jsv \<Rightarrow> jsnum" where
  "parseFloat dec (JNum r) = Fin r"
| "parseFloat dec (JStr s) = dec s"
| "parseFloat dec (JArr (x # xs)) = parseFloat dec x"
| "parseFloat dec v = NaN"

definition trunc :: "real \<Rightarrow> real" where
  "trunc r = (if 0 \<le> r then of_int \<lfloor>r\<rfloor> else of_int \<lceil>r\<rceil>)"

fun parseInt :: "(string \<Rightarrow> jsnum) \<Rightarrow> jsv \<Rightarrow> jsnum" where
  "parseInt dec (JNum r) = Fin (trunc r)"
| "parseInt dec (JStr s) = dec s"
| "parseInt dec (JArr (x # xs)) = parseInt dec x"
| "parseInt dec v = NaN"

text \<open>\<open>parseFloat(v || '0')\<close>: the literal \<open>'0'\<close> reads as 0.\<close>

definition parseFloatOr0 :: "(string \<Rightarrow> jsnum) \<Rightarrow> jsv \<Rightarrow> jsnum" where
  "parseFloatOr0 dec v = (if truthy v then parseFloat dec v else Fin 0)"

section \<open>MarketDataService\<close>

record TickerData =
  tk_symbol :: string
  tk_price :: jsnum
  tk_price24h :: jsnum
  tk_volume24h :: jsnum
  tk_high24h :: jsnum
  tk_low24h :: jsnum
  tk_priceChange24h :: jsnum
  tk_priceChangePercent24h :: jsnum
  tk_timestamp :: int

record OrderbookData =
  ob_symbol :: string
  ob_bids :: "(jsnum \<times> jsnum) list"
  ob_asks :: "(jsnum \<times> jsnum) list"
  ob_timestamp :: int

record KlineData =
  k_timestamp :: jsnum
  k_open :: jsnum
  k_high :: jsnum
  k_low :: jsnum
  k_close :: jsnum
  k_volume :: jsnum

record TradeData =
  td_id :: jsv
  td_symbol :: jsv
  td_price :: jsnum
  td_quantity :: jsnum
  td_side :: jsv
  td_timestamp :: jsnum

text \<open>
  What the service does not own. \<open>net k auth endpoint\<close> is what the \<open>k\<close>-th HTTP request
  of the process meets when it asks for \<open>endpoint\<close> (with the signed headers when \<open>auth\<close>):
  after so many milliseconds, either a parsed body, or a failure (no connection, a status
  that is not 2xx, a body that is not JSON). \<open>rnd k\<close> is the \<open>k\<close>-th value of
  \<open>Math.random()\<close>.
\<close>

datatype outcome = Resolve jsv | Reject

record env =
  net :: "nat \<Rightarrow> bool \<Rightarrow> string \<Rightarrow> outcome \<times> int"
  rnd :: "nat \<Rightarrow> real"
  decFloat :: "string \<Rightarrow> jsnum"
  decInt :: "string \<Rightarrow> jsnum"

text \<open>
  The state of the singleton. The source keeps one \<open>Map\<close> named \<open>cache\<close> for the four
  operations; its keys start with \<open>ticker_\<close>, \<open>orderbook_\<close>, \<open>klines_\<close> and \<open>trades_\<close>, so
  an operation only ever meets its own entries, and the model keeps one typed map per
  operation under the same keys. \<open>clock\<close> is \<open>Date.now()\<close>; it moves while the service
  waits. \<open>netlog\<close> lists the HTTP requests made so far, \<open>nrand\<close> counts the calls of
  \<open>Math.random()\<close>.
\<close>

record mds =
  tickerCache :: "string \<rightharpoonup> TickerData"
  orderbookCache :: "string \<rightharpoonup> OrderbookData"
  klinesCache :: "string \<rightharpoonup> KlineData list"
  tradesCache :: "string \<rightharpoonup> TradeData list"
  lastFetch :: "string \<rightharpoonup> int"
  clock :: int
  netlog :: "(bool \<times> string) list"
  nrand :: nat

definition CACHE_DURATION :: int where "CACHE_DURATION = 2000"
definition REQUEST_TIMEOUT :: int where "REQUEST_TIMEOUT = 3000"
definition MAX_RETRIES :: nat where "MAX_RETRIES = 3"
definition RETRY_DELAY :: int where "RETRY_DELAY = 500"

text \<open>
  \<open>withRetry\<close>: \<open>attempts\<close> runs the loop with \<open>n\<close> rounds left, so the round in hand is
  number \<open>MAX_RETRIES + 1 - n\<close>. A round sends one request and races it against the
  timeout; a round that fails sleeps \<open>RETRY_DELAY * attempt\<close> unless it was the last.
  \<open>None\<close> is \<open>throw lastError\<close>.
\<close>

fun attempts :: "env \<Rightarrow> bool \<Rightarrow> string \<Rightarrow> nat \<Rightarrow> mds \<Rightarrow> jsv option \<times> mds" where
  "attempts E auth endpoint 0 s = (None, s)"
| "attempts E auth endpoint (Suc n) s =
     (let attempt = MAX_RETRIES - n;
          reply = net E (length (netlog s)) auth endpoint;
          latency = snd reply;
          s1 = s\<lparr>netlog := netlog s @ [(auth, endpoint)]\<rparr>
      in case (if latency < REQUEST_TIMEOUT then fst reply else Reject) of
           Resolve data \<Rightarrow> (Some data, s1\<lparr>clock := clock s1 + latency\<rparr>)
         | Reject \<Rightarrow>
             (let s2 = s1\<lparr>clock := clock s1 + min latency REQUEST_TIMEOUT\<rparr>;
                  s3 = (if attempt < MAX_RETRIES
                        then s2\<lparr>clock := clock s2 + RETRY_DELAY * int attempt\<rparr> else s2)
              in attempts E auth endpoint n s3))"

definition withRetry :: "env \<Rightarrow> bool \<Rightarrow> string \<Rightarrow> mds \<Rightarrow> jsv option \<times> mds" where
  "withRetry E auth endpoint s = attempts E auth endpoint MAX_RETRIES s"

definition checkRateLimit :: "string \<Rightarrow> mds \<Rightarrow> bool \<times> mds" where
  "checkRateLimit symbol s =
     (let lastF = (case lastFetch s symbol of Some t \<Rightarrow> t | None \<Rightarrow> 0);
          now = clock s
      in if now - lastF < 1000 then (False, s)
         else (True, s\<lparr>lastFetch := (lastFetch s)(symbol \<mapsto> now)\<rparr>))"

definition getBasePrice :: "string \<Rightarrow> real" where
  "getBasePrice symbol =
     (if symbol = ''PERP_BTC_USDC'' then 65000
      else if symbol = ''PERP_ETH_USDC'' then 3200
      else if symbol = ''PERP_SOL_USDC'' then 180
      else if symbol = ''PERP_AVAX_USDC'' then 35
      else if symbol = ''PERP_MATIC_USDC'' then 8 / 10
      else if symbol = ''PERP_HYPE_USDC'' then 2 / 1000
      else 100)"

subsection \<open>Mock data\<close>

definition getMockTicker :: "env \<Rightarrow> string \<Rightarrow> mds \<Rightarrow> TickerData \<times> mds" where
  "getMockTicker E symbol s =
     (let basePrice = getBasePrice symbol;
          r = (\<lambda>i. rnd E (nrand s + i))
      in (\<lparr>tk_symbol = symbol,
           tk_price = Fin basePrice,
           tk_price24h = Fin (basePrice * (1 + (r 0 - 5 / 10) * (2 / 100))),
           tk_volume24h = Fin (r 1 * 1000000),
           tk_high24h = Fin (basePrice * (1015 / 1000)),
           tk_low24h = Fin (basePrice * (985 / 1000)),
           tk_priceChange24h = Fin ((r 2 - 5 / 10) * basePrice * (3 / 100)),
           tk_priceChangePercent24h = Fin ((r 3 - 5 / 10) * 3),
           tk_timestamp = clock s\<rparr>,
          s\<lparr>nrand := nrand s + 4\<rparr>))"

definition getMockOrderbook :: "env \<Rightarrow> string \<Rightarrow> mds \<Rightarrow> OrderbookData \<times> mds" where
  "getMockOrderbook E symbol s =
     (let basePrice = getBasePrice symbol;
          r = (\<lambda>i. rnd E (nrand s + i))
      in (\<lparr>ob_symbol = symbol,
           ob_bids = map (\<lambda>i. (Fin (basePrice - real i * (5 / 10)), Fin (r (2 * i) * 100))) [0..<10],
           ob_asks = map (\<lambda>i. (Fin (basePrice + real i * (5 / 10)), Fin (r (2 * i + 1) * 100))) [0..<10],
           ob_timestamp = clock s\<rparr>,
          s\<lparr>nrand := nrand s + 20\<rparr>))"

text \<open>The loop of \<open>getMockKlines\<close> counts \<open>i\<close> down from \<open>limit\<close> to 1; round \<open>j\<close> has \<open>i = limit - j\<close>.\<close>

definition mockKline :: "env \<Rightarrow> real \<Rightarrow> mds \<Rightarrow> nat \<Rightarrow> nat \<Rightarrow> KlineData" where
  "mockKline E basePrice s limit j =
     (let r = (\<lambda>i. rnd E (nrand s + 5 * j + i));
          opn = basePrice + (r 0 - 5 / 10) * 10;
          cls = opn + (r 1 - 5 / 10) * 2
      in \<lparr>k_timestamp = Fin (real_of_int (clock s - int (limit - j) * 60000)),
          k_open = Fin opn,
          k_high = Fin (max opn cls + r 2 * 1),
          k_low = Fin (min opn cls - r 3 * 1),
          k_close = Fin cls,
          k_volume = Fin (r 4 * 1000)\<rparr>)"

definition getMockKlines :: "env \<Rightarrow> string \<Rightarrow> nat \<Rightarrow> mds \<Rightarrow> KlineData list \<times> mds" where
  "getMockKlines E symbol limit s =
     (map (mockKline E (getBasePrice symbol) s limit) [0..<limit],
      s\<lparr>nrand := nrand s + 5 * limit\<rparr>)"

definition mockTrade :: "env \<Rightarrow> string \<Rightarrow> mds \<Rightarrow> nat \<Rightarrow> TradeData" where
  "mockTrade E symbol s i =
     (let r = (\<lambda>k. rnd E (nrand s + 3 * i + k))
      in \<lparr>td_id = JStr (''trade_'' @ show_nat i),
          td_symbol = JStr symbol,
          td_price = Fin (getBasePrice symbol + (r 0 - 5 / 10) * 2),
          td_quantity = Fin (r 1 * 10),
          td_side = JStr (if r 2 > 5 / 10 then ''buy'' else ''sell''),
          td_timestamp = Fin (real_of_int (clock s - int i * 1000))\<rparr>)"

definition getMockTrades :: "env \<Rightarrow> string \<Rightarrow> nat \<Rightarrow> mds \<Rightarrow> TradeData list \<times> mds" where
  "getMockTrades E symbol limit s =
     (map (mockTrade E symbol s) [0..<limit], s\<lparr>nrand := nrand s + 3 * limit\<rparr>)"

subsection \<open>fetchTicker\<close>

definition tickerEndpoints :: "string \<Rightarrow> string list" where
  "tickerEndpoints symbol =
     [''/v1/public/market/ticker?symbol='' @ symbol,
      ''/v1/public/ticker?symbol='' @ symbol,
      ''/ticker?symbol='' @ symbol,
      ''/v1/ticker?symbol='' @ symbol]"

definition tickerAuthEndpoints :: "string \<Rightarrow> string list" where
  "tickerAuthEndpoints symbol =
     [''/v1/public/market/ticker?symbol='' @ symbol,
      ''/v1/public/ticker?symbol='' @ symbol]"

text \<open>
  The loop over the candidate endpoints: \<open>data\<close> starts \<open>undefined\<close>; the first endpoint
  whose \<open>withRetry\<close> returns assigns it and leaves the loop, whatever the body was.
\<close>

fun tryEndpoints :: "env \<Rightarrow> bool \<Rightarrow> string list \<Rightarrow> mds \<Rightarrow> jsv \<times> mds" where
  "tryEndpoints E auth [] s = (JUndef, s)"
| "tryEndpoints E auth (endpoint # rest) s =
     (case withRetry E auth endpoint s of
        (Some data, s') \<Rightarrow> (data, s')
      | (None, s') \<Rightarrow> tryEndpoints E auth rest s')"

text \<open>\<open>parseFloat(data.a || data.b || data.c || '0')\<close>.\<close>

definition alias3 :: "env \<Rightarrow> jsv \<Rightarrow> string \<Rightarrow> string \<Rightarrow> string \<Rightarrow> jsnum" where
  "alias3 E data a b c =
     parseFloatOr0 (decFloat E) (orJ (orJ (field data a) (field data b)) (field data c))"

definition alias2 :: "env \<Rightarrow> jsv \<Rightarrow> string \<Rightarrow> string \<Rightarrow> jsnum" where
  "alias2 E data a b = parseFloatOr0 (decFloat E) (orJ (field data a) (field data b))"

definition parseTicker :: "env \<Rightarrow> string \<Rightarrow> jsv \<Rightarrow> int \<Rightarrow> TickerData" where
  "parseTicker E symbol data now =
     \<lparr>tk_symbol = symbol,
      tk_price = alias3 E data ''price'' ''last_price'' ''lastPrice'',
      tk_price24h = alias3 E data ''price24h'' ''open_24h'' ''open24h'',
      tk_volume24h = alias3 E data ''volume24h'' ''volume_24h'' ''volume24h'',
      tk_high24h = alias3 E data ''high24h'' ''high_24h'' ''high24h'',
      tk_low24h = alias3 E data ''low24h'' ''low_24h'' ''low24h'',
      tk_priceChange24h = alias3 E data ''priceChange24h'' ''price_change_24h'' ''change24h'',
      tk_priceChangePercent24h =
        alias3 E data ''priceChangePercent24h'' ''price_change_percent_24h'' ''changePercent24h'',
      tk_timestamp = now\<rparr>"

text \<open>
  The body of the \<open>try\<close> block, entered once the rate limit has let the call through.
  \<open>None\<close> is one of its two \<open>throw\<close>s (no endpoint answered with a truthy body; price and
  volume both 0); the \<open>catch\<close> of \<open>fetchTicker\<close> turns it into mock data.
\<close>

definition fetchTickerTry :: "env \<Rightarrow> string \<Rightarrow> mds \<Rightarrow> TickerData option \<times> mds" where
  "fetchTickerTry E symbol s =
     (let pub = tryEndpoints E False (tickerEndpoints symbol) s;
          got = (if \<not> truthy (fst pub)
                 then tryEndpoints E True (tickerAuthEndpoints symbol) (snd pub) else pub);
          data = fst got;
          s' = snd got
      in if \<not> truthy data then (None, s')
         else
           let ticker = parseTicker E symbol data (clock s')
           in if tk_price ticker = Fin 0 \<and> tk_volume24h ticker = Fin 0 then (None, s')
              else (Some ticker,
                    s'\<lparr>tickerCache := (tickerCache s')(''ticker_'' @ symbol \<mapsto> ticker)\<rparr>))"

definition fetchTicker :: "env \<Rightarrow> string \<Rightarrow> mds \<Rightarrow> TickerData \<times> mds" where
  "fetchTicker E symbol s =
     (let cacheKey = ''ticker_'' @ symbol;
          cached = tickerCache s cacheKey
      in case (case cached of
                 Some c \<Rightarrow> if clock s - tk_timestamp c < CACHE_DURATION then Some c else None
               | None \<Rightarrow> None) of
           Some c \<Rightarrow> (c, s)
         | None \<Rightarrow>
             (case checkRateLimit symbol s of
                (False, s1) \<Rightarrow>
                  (case cached of Some c \<Rightarrow> (c, s1) | None \<Rightarrow> getMockTicker E symbol s1)
              | (True, s1) \<Rightarrow>
                  (case fetchTickerTry E symbol s1 of
                     (Some ticker, s2) \<Rightarrow> (ticker, s2)
                   | (None, s2) \<Rightarrow> getMockTicker E symbol s2)))"

subsection \<open>fetchOrderbook, fetchKlines, fetchTrades\<close>

text \<open>
  The three remaining operations ask the public endpoint first and the authenticated one
  when that has failed after its retries.
\<close>

definition publicThenAuth :: "env \<Rightarrow> string \<Rightarrow> mds \<Rightarrow> jsv option \<times> mds" where
  "publicThenAuth E endpoint s =
     (case withRetry E False endpoint s of
        (Some data, s') \<Rightarrow> (Some data, s')
      | (None, s') \<Rightarrow> withRetry E True endpoint s')"

text \<open>\<open>[parseFloat(level[0]), parseFloat(level[1])]\<close>; \<open>None\<close> is a TypeError.\<close>

definition parseLevel :: "env \<Rightarrow> jsv \<Rightarrow> (jsnum \<times> jsnum) option" where
  "parseLevel E level =
     (case idx level 0 of
        None \<Rightarrow> None
      | Some a \<Rightarrow>
          (case idx level 1 of
             None \<Rightarrow> None
           | Some b \<Rightarrow> Some (parseFloat (decFloat E) a, parseFloat (decFloat E) b)))"

text \<open>\<open>(v || []).map(f)\<close>: a truthy value that is no array has no \<open>map\<close>, a TypeError.\<close>

definition mapArray :: "(jsv \<Rightarrow> 'a option) \<Rightarrow> jsv \<Rightarrow> 'a list option" where
  "mapArray f v = (case orJ v (JArr []) of JArr xs \<Rightarrow> those (map f xs) | _ \<Rightarrow> None)"

definition fetchOrderbookTry :: "env \<Rightarrow> string \<Rightarrow> mds \<Rightarrow> OrderbookData option \<times> mds" where
  "fetchOrderbookTry E symbol s =
     (case publicThenAuth E (''/v1/public/orderbook?symbol='' @ symbol @ ''&depth=20'') s of
        (None, s') \<Rightarrow> (None, s')
      | (Some data, s') \<Rightarrow>
          if data = JUndef then (None, s')
          else
            (case mapArray (parseLevel E) (field data ''bids'') of
               None \<Rightarrow> (None, s')
             | Some bids \<Rightarrow>
                 (case mapArray (parseLevel E) (field data ''asks'') of
                    None \<Rightarrow> (None, s')
                  | Some asks \<Rightarrow>
                      (let orderbook = \<lparr>ob_symbol = symbol, ob_bids = bids, ob_asks = asks,
                                        ob_timestamp = clock s'\<rparr>
                       in (Some orderbook,
                           s'\<lparr>orderbookCache :=
                                (orderbookCache s')(''orderbook_'' @ symbol \<mapsto> orderbook)\<rparr>)))))"

definition fetchOrderbook :: "env \<Rightarrow> string \<Rightarrow> mds \<Rightarrow> OrderbookData \<times> mds" where
  "fetchOrderbook E symbol s =
     (let cacheKey = ''orderbook_'' @ symbol;
          cached = orderbookCache s cacheKey
      in case (case cached of
                 Some c \<Rightarrow> if clock s - ob_timestamp c < CACHE_DURATION then Some c else None
               | None \<Rightarrow> None) of
           Some c \<Rightarrow> (c, s)
         | None \<Rightarrow>
             (case checkRateLimit symbol s of
                (False, s1) \<Rightarrow>
                  (case cached of Some c \<Rightarrow> (c, s1) | None \<Rightarrow> getMockOrderbook E symbol s1)
              | (True, s1) \<Rightarrow>
                  (case fetchOrderbookTry E symbol s1 of
                     (Some orderbook, s2) \<Rightarrow> (orderbook, s2)
                   | (None, s2) \<Rightarrow> getMockOrderbook E symbol s2)))"

definition parseKline :: "env \<Rightarrow> int \<Rightarrow> jsv \<Rightarrow> KlineData option" where
  "parseKline E now kline =
     (if kline = JUndef then None
      else Some
        \<lparr>k_timestamp =
           parseInt (decInt E)
             (orJ (orJ (field kline ''timestamp'') (field kline ''t'')) (JNum (real_of_int now))),
         k_open = alias2 E kline ''open'' ''o'',
         k_high = alias2 E kline ''high'' ''h'',
         k_low = alias2 E kline ''low'' ''l'',
         k_close = alias2 E kline ''close'' ''c'',
         k_volume = alias2 E kline ''volume'' ''v''\<rparr>)"

definition klinesKey :: "string \<Rightarrow> string \<Rightarrow> nat \<Rightarrow> string" where
  "klinesKey symbol interval limit =
     ''klines_'' @ symbol @ ''_'' @ interval @ ''_'' @ show_nat limit"

definition fetchKlinesTry ::
  "env \<Rightarrow> string \<Rightarrow> string \<Rightarrow> nat \<Rightarrow> mds \<Rightarrow> KlineData list option \<times> mds" where
  "fetchKlinesTry E symbol interval limit s =
     (case publicThenAuth E
             (''/v1/public/futures/klines?symbol='' @ symbol @ ''&interval='' @ interval
                @ ''&limit='' @ show_nat limit) s of
        (None, s') \<Rightarrow> (None, s')
      | (Some data, s') \<Rightarrow>
          (case mapArray (parseKline E (clock s')) data of
             None \<Rightarrow> (None, s')
           | Some klines \<Rightarrow>
               (Some klines,
                s'\<lparr>klinesCache :=
                     (klinesCache s')(klinesKey symbol interval limit \<mapsto> klines)\<rparr>)))"

text \<open>
  \<open>fetchKlines\<close> and \<open>fetchTrades\<close> start with the rate limit: they look at the cache only
  when the rate limit has refused the call, and never at the age of the entry.
\<close>

definition fetchKlines ::
  "env \<Rightarrow> string \<Rightarrow> string \<Rightarrow> nat \<Rightarrow> mds \<Rightarrow> KlineData list \<times> mds" where
  "fetchKlines E symbol interval limit s =
     (let cacheKey = klinesKey symbol interval limit
      in case checkRateLimit symbol s of
           (False, s1) \<Rightarrow>
             (case klinesCache s1 cacheKey of
                Some c \<Rightarrow> (c, s1)
              | None \<Rightarrow> getMockKlines E symbol limit s1)
         | (True, s1) \<Rightarrow>
             (case fetchKlinesTry E symbol interval limit s1 of
                (Some klines, s2) \<Rightarrow> (klines, s2)
              | (None, s2) \<Rightarrow> getMockKlines E symbol limit s2))"

text \<open>
  One trade of the response. \<open>Math.random()\<close> is called only when the trade has no truthy
  \<open>side\<close>, so the count of random numbers drawn is threaded through the array; a
  \<open>null\<close> element throws after the elements before it have drawn theirs.
\<close>

fun parseTrades ::
  "env \<Rightarrow> string \<Rightarrow> int \<Rightarrow> jsv list \<Rightarrow> nat \<Rightarrow> TradeData list option \<times> nat" where
  "parseTrades E symbol now [] n = (Some [], n)"
| "parseTrades E symbol now (trade # rest) n =
     (if trade = JUndef then (None, n)
      else
        let drawn = \<not> truthy (field trade ''side'');
            trade' =
              \<lparr>td_id = orJ (orJ (field trade ''id'') (field trade ''trade_id''))
                          (JStr (''trade_'' @ show_int now)),
               td_symbol = orJ (field trade ''symbol'') (JStr symbol),
               td_price = alias2 E trade ''price'' ''p'',
               td_quantity = alias2 E trade ''quantity'' ''q'',
               td_side = (if drawn then JStr (if rnd E n > 5 / 10 then ''buy'' else ''sell'')
                          else field trade ''side''),
               td_timestamp =
                 parseInt (decInt E)
                   (orJ (orJ (field trade ''timestamp'') (field trade ''time''))
                      (JNum (real_of_int now)))\<rparr>
        in case parseTrades E symbol now rest (if drawn then n + 1 else n) of
             (None, n') \<Rightarrow> (None, n')
           | (Some trades, n') \<Rightarrow> (Some (trade' # trades), n'))"

definition tradesKey :: "string \<Rightarrow> nat \<Rightarrow> string" where
  "tradesKey symbol limit = ''trades_'' @ symbol @ ''_'' @ show_nat limit"

definition fetchTradesTry ::
  "env \<Rightarrow> string \<Rightarrow> nat \<Rightarrow> mds \<Rightarrow> TradeData list option \<times> mds" where
  "fetchTradesTry E symbol limit s =
     (case publicThenAuth E
             (''/v1/public/trades?symbol='' @ symbol @ ''&limit='' @ show_nat limit) s of
        (None, s') \<Rightarrow> (None, s')
      | (Some data, s') \<Rightarrow>
          (case orJ data (JArr []) of
             JArr xs \<Rightarrow>
               (case parseTrades E symbol (clock s') xs (nrand s') of
                  (None, n) \<Rightarrow> (None, s'\<lparr>nrand := n\<rparr>)
                | (Some trades, n) \<Rightarrow>
                    (Some trades,
                     s'\<lparr>nrand := n,
                        tradesCache := (tradesCache s')(tradesKey symbol limit \<mapsto> trades)\<rparr>))
           | _ \<Rightarrow> (None, s')))"

definition fetchTrades :: "env \<Rightarrow> string \<Rightarrow> nat \<Rightarrow> mds \<Rightarrow> TradeData list \<times> mds" where
  "fetchTrades E symbol limit s =
     (let cacheKey = tradesKey symbol limit
      in case checkRateLimit symbol s of
           (False, s1) \<Rightarrow>
             (case tradesCache s1 cacheKey of
                Some c \<Rightarrow> (c, s1)
              | None \<Rightarrow> getMockTrades E symbol limit s1)
         | (True, s1) \<Rightarrow>
             (case fetchTradesTry E symbol limit s1 of
                (Some trades, s2) \<Rightarrow> (trades, s2)
              | (None, s2) \<Rightarrow> getMockTrades E symbol limit s2))"

definition clearCache :: "mds \<Rightarrow> mds" where
  "clearCache s =
     s\<lparr>tickerCache := Map.empty, orderbookCache := Map.empty, klinesCache := Map.empty,
       tradesCache := Map.empty, lastFetch := Map.empty\<rparr>"

text \<open>The service as the module creates it, at the time the process starts.\<close>

definition newMarketDataService :: "int \<Rightarrow> mds" where
  "newMarketDataService t0 =
     \<lparr>tickerCache = Map.empty, orderbookCache = Map.empty, klinesCache = Map.empty,
      tradesCache = Map.empty, lastFetch = Map.empty, clock = t0, netlog = [], nrand = 0\<rparr>"

text \<open>Time passing between two calls.\<close>

definition elapse :: "int \<Rightarrow> mds \<Rightarrow> mds" where
  "elapse d s = s\<lparr>clock := clock s + d\<rparr>"

section \<open>OrderlyMarketService\<close>

record MarketSnapshot =
  ms_symbol :: string
  ms_price :: jsnum
  ms_volume24h :: jsnum
  ms_change24h :: jsnum
  ms_high :: jsnum
  ms_low :: jsnum
  ms_bids :: "(jsnum \<times> jsnum) list"
  ms_asks :: "(jsnum \<times> jsnum) list"
  ms_timestamp :: int
  isRealData :: bool

text \<open>
  \<open>generateOrderbook\<close>: the price starts at 3200 and moves by \<open>i * 0.5\<close> in round \<open>i\<close>, so
  after round \<open>i\<close> it has moved by \<open>0.5 * (0 + 1 + ... + i)\<close>.
\<close>

definition generateOrderbook :: "env \<Rightarrow> nat \<Rightarrow> bool \<Rightarrow> (jsnum \<times> jsnum) list" where
  "generateOrderbook E n isBid =
     map (\<lambda>i. (Fin (3200 + (if isBid then - 1 else 1) * (5 / 10) * real (\<Sum>j\<leftarrow>[0..<i + 1]. j)),
               Fin (rnd E (n + i) * 10)))
       [0..<10]"

definition getMockMarketData :: "env \<Rightarrow> string \<Rightarrow> mds \<Rightarrow> MarketSnapshot \<times> mds" where
  "getMockMarketData E symbol s =
     (let basePrice = getBasePrice symbol
      in (\<lparr>ms_symbol = symbol,
           ms_price = Fin basePrice,
           ms_volume24h = Fin (rnd E (nrand s) * 1000000),
           ms_change24h = Fin ((rnd E (nrand s + 1) - 5 / 10) * 10),
           ms_high = Fin (basePrice * (102 / 100)),
           ms_low = Fin (basePrice * (98 / 100)),
           ms_bids = generateOrderbook E (nrand s + 2) True,
           ms_asks = generateOrderbook E (nrand s + 12) False,
           ms_timestamp = clock s,
           isRealData = False\<rparr>,
          s\<lparr>nrand := nrand s + 22\<rparr>))"

text \<open>
  \<open>getMarketData\<close> wraps its body in \<open>try\<close> and answers \<open>getMockMarketData\<close> from the
  \<open>catch\<close>. The body awaits \<open>fetchTicker\<close> and \<open>fetchOrderbook\<close> and reads fields of what
  they return. Both return a value on each of their paths (their own \<open>catch\<close> has already
  replaced a failure by mock data), so the body has no path into the \<open>catch\<close>, and the
  model has none.
\<close>

definition getMarketData :: "env \<Rightarrow> string \<Rightarrow> mds \<Rightarrow> MarketSnapshot \<times> mds" where
  "getMarketData E symbol s =
     (let t = fetchTicker E symbol s;
          ticker = fst t;
          ob = fetchOrderbook E symbol (snd t);
          orderbook = fst ob;
          s' = snd ob
      in (\<lparr>ms_symbol = symbol,
           ms_price = tk_price ticker,
           ms_volume24h = tk_volume24h ticker,
           ms_change24h = tk_priceChangePercent24h ticker,
           ms_high = tk_high24h ticker,
           ms_low = tk_low24h ticker,
           ms_bids = take 10 (ob_bids orderbook),
           ms_asks = take 10 (ob_asks orderbook),
           ms_timestamp = clock s',
           isRealData = True\<rparr>,
          s'))"

section \<open>The route GET /api/market/:symbol\<close>

record MarketResponse =
  mr_status :: nat
  mr_body :: MarketSnapshot

text \<open>
  The handler has the shape of \<open>getMarketData\<close>: the same two awaited calls in a \<open>try\<close>,
  and a \<open>catch\<close> that answers 206 with mock data and \<open>isRealData: false\<close>, which no path
  of the body reaches. \<open>res.json\<close> without \<open>res.status\<close> answers 200.
\<close>

definition marketRoute :: "env \<Rightarrow> string \<Rightarrow> mds \<Rightarrow> MarketResponse \<times> mds" where
  "marketRoute E symbol s =
     (let t = fetchTicker E symbol s;
          marketData = fst t;
          ob = fetchOrderbook E symbol (snd t);
          orderbook = fst ob
      in (\<lparr>mr_status = 200,
           mr_body =
             \<lparr>ms_symbol = tk_symbol marketData,
              ms_price = tk_price marketData,
              ms_volume24h = tk_volume24h marketData,
              ms_change24h = tk_priceChangePercent24h marketData,
              ms_high = tk_high24h marketData,
              ms_low = tk_low24h marketData,
              ms_bids = take 10 (ob_bids orderbook),
              ms_asks = take 10 (ob_asks orderbook),
              ms_timestamp = tk_timestamp marketData,
              isRealData = True\<rparr>\<rparr>,
          snd ob))"

section \<open>TechnicalAnalysisService.getAllIndicators\<close>





section \<open>ChatService\<close>

record ChatIndicators =
  ci_rsi :: jsnum
  ci_macd :: macd_result
  ci_ema20 :: jsnum
  ci_ema50 :: jsnum

record ChatResponse =
  cr_reply :: string
  cr_indicators :: ChatIndicators
  cr_price :: jsnum

datatype error = Error string








text \<open>The \<open>catch\<close> block.\<close>

definition fallbackResponse :: "string \<Rightarrow> ChatResponse" where
  "fallbackResponse symbol =
     \<lparr>cr_reply =
        ''I apologize, but I'm having trouble accessing market data right now. Your question about ''
        @ symbol @ '' has been noted. Please try again in a moment.'',
      cr_indicators =
        \<lparr>ci_rsi = Fin 50,
         ci_macd = \<lparr>macd = Fin 0, signal = Fin 0, histogram = Fin 0\<rparr>,
         ci_ema20 = Fin 0, ci_ema50 = Fin 0\<rparr>,
      cr_price = Fin 0\<rparr>"


section \<open>The route POST /api/ai/chat\<close>

datatype chat_body =
    ErrorOnly string
  | ChatOk ChatResponse
  | ErrorWithReply string string

record ChatHttpResponse =
  ch_status :: nat
  ch_body :: chat_body

text \<open>
  The handler, on \<open>req.body\<close>. The body parser leaves an object there, or nothing at all
  when the request had no body it could parse; taking \<open>message\<close>, \<open>wallet\<close> and \<open>symbol\<close>
  out of nothing throws inside the \<open>try\<close>, and the \<open>catch\<close> answers 500. \<open>pm\<close> is the
  awaited call \<open>chatService.processMessage(message, wallet, symbol)\<close> with its outcome.
  Besides the response, the handler's result lists the calls of \<open>pm\<close> it has made.
\<close>

definition chatRoute ::
  "(jsv \<Rightarrow> jsv \<Rightarrow> jsv \<Rightarrow> error + ChatResponse) \<Rightarrow> jsv \<Rightarrow>
   ChatHttpResponse \<times> (jsv \<times> jsv \<times> jsv) list" where
  "chatRoute pm body =
     (if body = JUndef
      then (\<lparr>ch_status = 500,
             ch_body = ErrorWithReply ''Failed to process AI chat request''
                         ''Sorry, I encountered an error. Please try again.''\<rparr>, [])
      else
        let message = field body ''message'';
            wallet = field body ''wallet'';
            symbol = field body ''symbol''
        in if \<not> truthy message \<or> \<not> truthy wallet \<or> \<not> truthy symbol
           then (\<lparr>ch_status = 400,
                  ch_body = ErrorOnly ''Missing required fields: message, wallet, symbol''\<rparr>, [])
           else
             (case pm message wallet symbol of
                Inr response \<Rightarrow>
                  (\<lparr>ch_status = 200, ch_body = ChatOk response\<rparr>, [(message, wallet, symbol)])
              | Inl e \<Rightarrow>
                  (\<lparr>ch_status = 500,
                    ch_body = ErrorWithReply ''Failed to process AI chat request''
                                ''Sorry, I encountered an error. Please try again.''\<rparr>,
                   [(message, wallet, symbol)])))"

section \<open>WebSocketManager\<close>

text \<open>
  The interval timers of the runtime: \<open>setInterval\<close> registers a timer under a fresh
  handle, \<open>clearInterval\<close> removes it. A registered timer fires every \<open>interval\<close>
  milliseconds for as long as it is registered, and never after.
\<close>

datatype timer_kind = PriceUpdate | Alerts

record timer =
  tm_handle :: nat
  tm_kind :: timer_kind
  tm_symbol :: string
  tm_interval :: nat

text \<open>
  The manager with the part of the socket server it uses: \<open>rooms\<close> maps the name of a
  room to the sockets that have joined it (a room without sockets does not exist).
\<close>

record wsm =
  activeSymbols :: "string set"
  pollIntervals :: "string \<rightharpoonup> nat"
  rooms :: "string \<Rightarrow> nat set"
  timers :: "timer list"
  nextHandle :: nat

definition setInterval :: "timer_kind \<Rightarrow> string \<Rightarrow> nat \<Rightarrow> wsm \<Rightarrow> nat \<times> wsm" where
  "setInterval kind symbol ms s =
     (nextHandle s,
      s\<lparr>timers := timers s @ [\<lparr>tm_handle = nextHandle s, tm_kind = kind, tm_symbol = symbol,
                               tm_interval = ms\<rparr>],
        nextHandle := nextHandle s + 1\<rparr>)"

definition clearInterval :: "nat \<Rightarrow> wsm \<Rightarrow> wsm" where
  "clearInterval h s = s\<lparr>timers := filter (\<lambda>t. tm_handle t \<noteq> h) (timers s)\<rparr>"

text \<open>
  \<open>OrderlyMarketService.startPolling\<close>: registers the 2000 ms timer whose tick fetches the
  market data and hands it to the callback, polls once at once, and returns the function
  that clears the timer; the model returns the handle that function would clear.
\<close>

definition startPolling :: "string \<Rightarrow> wsm \<Rightarrow> nat \<times> wsm" where
  "startPolling symbol s = setInterval PriceUpdate symbol 2000 s"

text \<open>
  \<open>subscribeToSymbol\<close> binds what \<open>startPolling\<close> returns to \<open>stopPolling\<close> and does not use
  it again; only the handle of the alert timer is stored in \<open>pollIntervals\<close>.
\<close>

definition subscribeToSymbol :: "string \<Rightarrow> wsm \<Rightarrow> wsm" where
  "subscribeToSymbol symbol s =
     (if symbol \<in> activeSymbols s then s
      else
        let s1 = s\<lparr>activeSymbols := insert symbol (activeSymbols s)\<rparr>;
            polling = startPolling symbol s1;
            stopPolling = fst polling;
            alert = setInterval Alerts symbol 30000 (snd polling);
            alertInterval = fst alert;
            s3 = snd alert
        in s3\<lparr>pollIntervals := (pollIntervals s3)(symbol \<mapsto> alertInterval)\<rparr>)"

definition unsubscribeFromSymbol :: "string \<Rightarrow> wsm \<Rightarrow> wsm" where
  "unsubscribeFromSymbol symbol s =
     (if rooms s (''symbol-'' @ symbol) = {} then
        let s1 = s\<lparr>activeSymbols := activeSymbols s - {symbol}\<rparr>
        in case pollIntervals s1 symbol of
             Some interval \<Rightarrow>
               (clearInterval interval s1)\<lparr>pollIntervals := (pollIntervals s1)(symbol := None)\<rparr>
           | None \<Rightarrow> s1
      else s)"

definition join :: "nat \<Rightarrow> string \<Rightarrow> wsm \<Rightarrow> wsm" where
  "join socket room s = s\<lparr>rooms := (rooms s)(room := insert socket (rooms s room))\<rparr>"

definition leave :: "nat \<Rightarrow> string \<Rightarrow> wsm \<Rightarrow> wsm" where
  "leave socket room s = s\<lparr>rooms := (rooms s)(room := rooms s room - {socket})\<rparr>"

text \<open>
  What a socket can do to the manager. A socket that disconnects is taken out of all its
  rooms by the socket server; the manager's \<open>disconnect\<close> handler writes a log line and
  nothing else.
\<close>

datatype socket_event =
    SubscribeSymbol nat string
  | UnsubscribeSymbol nat string
  | SubscribeAlerts nat string
  | Disconnect nat

fun handle :: "wsm \<Rightarrow> socket_event \<Rightarrow> wsm" where
  "handle s (SubscribeSymbol socket symbol) =
     join socket (''symbol-'' @ symbol) (subscribeToSymbol symbol s)"
| "handle s (UnsubscribeSymbol socket symbol) =
     unsubscribeFromSymbol symbol (leave socket (''symbol-'' @ symbol) s)"
| "handle s (SubscribeAlerts socket wallet) = join socket (''alerts-'' @ wallet) s"
| "handle s (Disconnect socket) = s\<lparr>rooms := (\<lambda>room. rooms s room - {socket})\<rparr>"

definition newWebSocketManager :: wsm where
  "newWebSocketManager =
     \<lparr>activeSymbols = {}, pollIntervals = Map.empty, rooms = (\<lambda>room. {}), timers = [],
      nextHandle = 0\<rparr>"

definition run :: "socket_event list \<Rightarrow> wsm" where
  "run events = foldl handle newWebSocketManager events"

text \<open>The kinds of the timers that still fire for a symbol, and its subscribers.\<close>

definition firing :: "wsm \<Rightarrow> string \<Rightarrow> timer_kind list" where
  "firing s symbol = map tm_kind (filter (\<lambda>t. tm_symbol t = symbol) (timers s))"

definition subscribers :: "wsm \<Rightarrow> string \<Rightarrow> nat set" where
  "subscribers s symbol = rooms s (''symbol-'' @ symbol)"

section \<open>Reference definitions over the reals\<close>


text \<open>
  The relative strength index as the specification words it: the gains and losses between
  consecutive prices, and Wilder's smoothed average of a series of them (seed: the mean of
  the first \<open>period\<close> values; then \<open>avg = (avg * (period - 1) + new) / period\<close>).
\<close>

definition gains_real :: "real list \<Rightarrow> real list" where
  "gains_real xs = map (\<lambda>i. max (xs ! i - xs ! (i - 1)) 0) [1..<length xs]"

definition losses_real :: "real list \<Rightarrow> real list" where
  "losses_real xs = map (\<lambda>i. max (xs ! (i - 1) - xs ! i) 0) [1..<length xs]"

definition wilder :: "nat \<Rightarrow> real list \<Rightarrow> real" where
  "wilder p ds =
     foldl (\<lambda>avg d. (avg * (real p - 1) + d) / real p) (sum_list (take p ds) / real p)
       (drop p ds)"

text \<open>The requests a call has sent: what \<open>netlog\<close> has gained from \<open>s\<close> to \<open>s'\<close>.\<close>

definition requests :: "mds \<Rightarrow> mds \<Rightarrow> (bool \<times> string) list" where
  "requests s s' = drop (length (netlog s)) (netlog s')"

text \<open>
  What holds of the timer handles in every state the manager reaches: the handles in use
  are below \<open>nextHandle\<close>, and a handle kept in \<open>pollIntervals\<close> belongs to an alert timer.
\<close>

definition handles_ok :: "wsm \<Rightarrow> bool" where
  "handles_ok s \<longleftrightarrow>
     (\<forall>t\<in>set (timers s). tm_handle t < nextHandle s)
     \<and> (\<forall>symbol h. pollIntervals s symbol = Some h \<longrightarrow>
           h < nextHandle s \<and> (\<forall>t\<in>set (timers s). tm_handle t = h \<longrightarrow> tm_kind t = Alerts))"






section \<open>Environments for the examples\<close>

text \<open>An exchange that cannot be reached: every request fails at once.\<close>

definition downEnv :: env where
  "downEnv =
     \<lparr>net = (\<lambda>k auth endpoint. (Reject, 0)), rnd = (\<lambda>k. 1 / 2),
      decFloat = (\<lambda>s. NaN), decInt = (\<lambda>s. NaN)\<rparr>"

text \<open>An exchange that answers every request at once; the price it quotes moves with each request.\<close>

definition upEnv :: env where
  "upEnv =
     \<lparr>net = (\<lambda>k auth endpoint.
              (Resolve (JObj [(''price'', JNum (64000 + real k)), (''volume24h'', JNum 10)]), 0)),
      rnd = (\<lambda>k. 1 / 2), decFloat = (\<lambda>s. NaN), decInt = (\<lambda>s. NaN)\<rparr>"

text \<open>An exchange that answers every request at once with one candle.\<close>

definition klinesEnv :: env where
  "klinesEnv =
     \<lparr>net = (\<lambda>k auth endpoint. (Resolve (JArr [JObj [(''close'', JNum 5)]]), 0)),
      rnd = (\<lambda>k. 1 / 2), decFloat = (\<lambda>s. NaN), decInt = (\<lambda>s. NaN)\<rparr>"

section \<open>Two runs of the service\<close>

text \<open>
  A run on tickers. The process starts at time 10000 and fetches the ticker of \<open>X\<close> from
  an exchange that answers; \<open>warm\<close> is the service after that call and \<open>quote1\<close> the ticker
  it has cached. 1999 ms later \<open>callA\<close> asks again, and 1 ms after \<open>callA\<close> has returned
  \<open>callB\<close> asks once more; \<open>quote2\<close> is what \<open>callB\<close> returns.
\<close>

definition quote1 :: TickerData where
  "quote1 =
     \<lparr>tk_symbol = ''X'', tk_price = Fin 64000, tk_price24h = Fin 0, tk_volume24h = Fin 10,
      tk_high24h = Fin 0, tk_low24h = Fin 0, tk_priceChange24h = Fin 0,
      tk_priceChangePercent24h = Fin 0, tk_timestamp = 10000\<rparr>"





text \<open>
  A run on candles. The process starts at time 10000 and fetches 200 one-minute candles of
  \<open>X\<close>; \<open>candles\<close> is what the call returns and caches, \<open>warmK\<close> the service after it. 1500 ms
  later \<open>callK\<close> asks for the same candles again.
\<close>

definition candles :: "KlineData list" where
  "candles =
     [\<lparr>k_timestamp = Fin 10000, k_open = Fin 0, k_high = Fin 0, k_low = Fin 0,
       k_close = Fin 5, k_volume = Fin 0\<rparr>]"

definition warmK :: mds where
  "warmK = snd (fetchKlines klinesEnv ''X'' ''1m'' 200 (newMarketDataService 10000))"

definition callK :: "KlineData list \<times> mds" where
  "callK = fetchKlines klinesEnv ''X'' ''1m'' 200 (elapse 1500 warmK)"


text \<open>
  A service that holds an entry for each of the four operations on \<open>X\<close>, 500 ms after the
  rate limit last let a call for \<open>X\<close> through.
\<close>

definition book1 :: OrderbookData where
  "book1 =
     \<lparr>ob_symbol = ''X'', ob_bids = [(Fin 63999, Fin 2)], ob_asks = [(Fin 64001, Fin 3)],
      ob_timestamp = 10000\<rparr>"

definition hot :: mds where
  "hot =
     \<lparr>tickerCache = [''ticker_X'' \<mapsto> quote1],
      orderbookCache = [''orderbook_X'' \<mapsto> book1],
      klinesCache = [''klines_X_1m_200'' \<mapsto> candles],
      tradesCache = [''trades_X_50'' \<mapsto> []],
      lastFetch = [''X'' \<mapsto> 10000], clock = 10500, netlog = [], nrand = 0\<rparr>"



section \<open>Finite inputs stay finite\<close>

lemma foldl_jadd_Fin: "foldl jadd (Fin a) (map Fin xs) = Fin (a + sum_list xs)"
  by (induction xs arbitrary: a) (simp_all add: add.assoc)

lemma jsum_Fin: "jsum (map Fin xs) = Fin (sum_list xs)"
  by (simp add: jsum_def foldl_jadd_Fin)



lemma jsub_Fin: "jsub (Fin a) (Fin b) = Fin (a - b)"
  by (simp add: jsub_def)





section \<open>calculateRSI\<close>

text \<open>
  Claim C3: for every price sequence of length at least 15, \<open>calculateRSI(prices, 14)\<close> is
  in the closed interval from 0 to 100, and 50 with fewer than \<open>period + 1\<close> samples.

  The code does not keep this on a flat market. Fifteen equal prices give gains and losses
  that are all 0, so \<open>avgGain / avgLoss\<close> is \<open>0 / 0\<close>, which is \<open>NaN\<close>; \<open>Math.min\<close> and
  \<open>Math.max\<close> pass \<open>NaN\<close> on, and the clamp that the code applies to keep the result
  between 0 and 100 returns \<open>NaN\<close>.
\<close>

theorem calculateRSI_flat_is_NaN:
  "calculateRSI (replicate 15 (Fin 100)) 14 = NaN"
  by code_simp

text \<open>
  What the code does keep. With fewer than \<open>period + 1\<close> samples the result is 50. On real
  prices and in exact arithmetic (neither rounding nor overflow), with at least
  \<open>period + 1\<close> samples, the result is the index computed from Wilder's averages of the
  gains and of the losses, a value between 0 and 100, except when both averages are 0:
  then, and only then, it is \<open>NaN\<close>.
\<close>

lemma calculateRSI_short:
  "length prices < period + 1 \<Longrightarrow> calculateRSI prices period = Fin 50"
  by (simp add: calculateRSI_def)

lemma changes_Fin:
  "changes (map Fin xs) = map (\<lambda>i. Fin (xs ! i - xs ! (i - 1))) [1..<length xs]"
proof -
  have "jsub (map Fin xs ! i) (map Fin xs ! (i - 1)) = Fin (xs ! i - xs ! (i - 1))"
    if "i \<in> set [1..<length xs]" for i
  proof -
    have "i < length xs" "i - 1 < length xs" using that by auto
    then show ?thesis by (simp add: jsub_Fin)
  qed
  then show ?thesis
    unfolding changes_def by (intro map_cong) simp_all
qed

lemma gains_Fin: "map gain_of (changes (map Fin xs)) = map Fin (gains_real xs)"
  by (simp add: changes_Fin gains_real_def gain_of_def jgt_def max_def)

lemma losses_Fin: "map loss_of (changes (map Fin xs)) = map Fin (losses_real xs)"
  by (simp add: changes_Fin losses_real_def loss_of_def max_def)

lemma foldl_smooth_Fin:
  assumes "length gs = length ls" "0 < p"
  shows "foldl (smooth p) (Fin a, Fin b) (zip (map Fin gs) (map Fin ls)) =
     (Fin (foldl (\<lambda>avg d. (avg * (real p - 1) + d) / real p) a gs),
      Fin (foldl (\<lambda>avg d. (avg * (real p - 1) + d) / real p) b ls))"
  using assms
  by (induction gs ls arbitrary: a b rule: list_induct2) (simp_all add: smooth_def)

lemma foldl_wilder_nonneg:
  assumes "\<forall>d\<in>set ds. 0 \<le> d" "0 \<le> a" "0 < p"
  shows "0 \<le> foldl (\<lambda>avg d. (avg * (real p - 1) + d) / real p) a ds"
  using assms
proof (induction ds arbitrary: a)
  case Nil
  then show ?case by simp
next
  case (Cons d ds)
  have "0 \<le> real p - 1" using Cons.prems(3) by simp
  then have "0 \<le> (a * (real p - 1) + d) / real p"
    using Cons.prems by simp
  then show ?case using Cons by simp
qed

lemma wilder_nonneg:
  assumes "\<forall>d\<in>set ds. 0 \<le> d" "0 < p"
  shows "0 \<le> wilder p ds"
proof -
  have "0 \<le> sum_list (take p ds)"
    using assms(1) by (intro sum_list_nonneg) (auto dest: in_set_takeD)
  then have "0 \<le> sum_list (take p ds) / real p" by simp
  moreover have "\<forall>d\<in>set (drop p ds). 0 \<le> d"
    using assms(1) by (auto dest: in_set_dropD)
  ultimately show ?thesis
    unfolding wilder_def using assms(2) by (intro foldl_wilder_nonneg)
qed

lemma gains_real_nonneg: "\<forall>d\<in>set (gains_real xs). 0 \<le> d"
  by (auto simp: gains_real_def)

lemma losses_real_nonneg: "\<forall>d\<in>set (losses_real xs). 0 \<le> d"
  by (auto simp: losses_real_def)

lemma calculateRSI_Fin:
  assumes "0 < p" "p + 1 \<le> length xs"
  shows "calculateRSI (map Fin xs) p =
     (if wilder p (losses_real xs) = 0
      then (if wilder p (gains_real xs) = 0 then NaN else Fin 100)
      else Fin (100 - 100 / (1 + wilder p (gains_real xs) / wilder p (losses_real xs))))"
proof -
  let ?g = "gains_real xs" and ?l = "losses_real xs"
  let ?f = "\<lambda>avg d. (avg * (real p - 1) + d) / real p"
  have len: "length ?g = length ?l" by (simp add: gains_real_def losses_real_def)
  have seedg: "jdiv (jsum (take p (map Fin ?g))) (Fin (real p)) = Fin (sum_list (take p ?g) / real p)"
    using assms(1) by (simp add: take_map jsum_Fin)
  have seedl: "jdiv (jsum (take p (map Fin ?l))) (Fin (real p)) = Fin (sum_list (take p ?l) / real p)"
    using assms(1) by (simp add: take_map jsum_Fin)
  have avg: "foldl (smooth p)
        (Fin (sum_list (take p ?g) / real p), Fin (sum_list (take p ?l) / real p))
        (drop p (zip (map Fin ?g) (map Fin ?l)))
      = (Fin (wilder p ?g), Fin (wilder p ?l))"
    using len assms(1) by (simp add: drop_zip drop_map foldl_smooth_Fin wilder_def)
  have ag: "0 \<le> wilder p ?g" using gains_real_nonneg assms(1) by (rule wilder_nonneg)
  have al: "0 \<le> wilder p ?l" using losses_real_nonneg assms(1) by (rule wilder_nonneg)
  have rsi: "calculateRSI (map Fin xs) p =
      (let rs = jdiv (Fin (wilder p ?g)) (Fin (wilder p ?l));
           rsi = jsub (Fin 100) (jdiv (Fin 100) (jadd (Fin 1) rs))
       in jmax (Fin 0) (jmin (Fin 100) rsi))"
    using assms(2)
    by (simp add: calculateRSI_def Let_def gains_Fin losses_Fin seedg seedl avg
        del: jdiv.simps)
  show ?thesis
  proof (cases "wilder p ?l = 0")
    case True
    then show ?thesis
      using ag by (simp add: rsi Let_def jinf_def jsub_def jmax_def jmin_def)
  next
    case False
    with al have pos: "0 < wilder p ?l" by simp
    define q where "q = wilder p ?g / wilder p ?l"
    have q: "0 \<le> q" using ag pos by (simp add: q_def)
    have "100 / (1 + q) \<le> 100" using q by (simp add: divide_le_eq)
    moreover have "0 \<le> 100 / (1 + q)" using q by simp
    ultimately have r: "0 \<le> 100 - 100 / (1 + q)" "100 - 100 / (1 + q) \<le> 100" by simp_all
    have ne: "1 + q \<noteq> 0" using q by simp
    show ?thesis
      using False r ne
      by (simp add: rsi Let_def jsub_def jmax_def jmin_def q_def [symmetric])
  qed
qed

lemma calculateRSI_range:
  assumes "0 < p" "p + 1 \<le> length xs"
  shows "calculateRSI (map Fin xs) p = NaN
       \<or> (\<exists>r. calculateRSI (map Fin xs) p = Fin r \<and> 0 \<le> r \<and> r \<le> 100)"
proof -
  let ?g = "wilder p (gains_real xs)" and ?l = "wilder p (losses_real xs)"
  have ag: "0 \<le> ?g" using gains_real_nonneg assms(1) by (rule wilder_nonneg)
  have al: "0 \<le> ?l" using losses_real_nonneg assms(1) by (rule wilder_nonneg)
  show ?thesis
  proof (cases "?l = 0")
    case True
    then show ?thesis by (simp add: calculateRSI_Fin [OF assms])
  next
    case False
    with al have pos: "0 < ?l" by simp
    have q: "0 \<le> ?g / ?l" using ag pos by simp
    have "100 / (1 + ?g / ?l) \<le> 100" using q by (simp add: divide_le_eq)
    moreover have "0 \<le> 100 / (1 + ?g / ?l)" using q by simp
    ultimately show ?thesis using False by (simp add: calculateRSI_Fin [OF assms])
  qed
qed

section \<open>calculateMACD\<close>

subsection \<open>Rounding\<close>














subsection \<open>The signal line\<close>




section \<open>calculateATR\<close>




section \<open>trendDirection\<close>

text \<open>
  Claim C8, as stated: \<open>trendDirection\<close> is bearish only when the price is below \<open>sma20\<close> and
  \<open>sma20\<close> below the long-term reference, and neutral when compared values are equal. It is
  not: with the price, \<open>sma20\<close> and the reference all equal to 1, neither comparison
  \<open>>\<close> holds, both trends are \<open>-1\<close>, and the answer is bearish.
\<close>

theorem trendDirection_equal_counterexample:
  "trendDirection [Fin 1, Fin 1] (Fin 1) (Fin 1) = Bearish"
  by (simp add: trendDirection_def jgt_def)

text \<open>
  Claim C8, amended: for at least two real prices and real references, \<open>trendDirection\<close>
  is bullish iff the current price is above \<open>sma20\<close> and \<open>sma20\<close> above the long-term
  reference; bearish iff the current price is at or below \<open>sma20\<close> and \<open>sma20\<close> at or below
  the long-term reference; and neutral otherwise, that is when exactly one of the two
  comparisons \<open>>\<close> holds.
\<close>

theorem trendDirection_cases:
  assumes "2 \<le> length ps"
  shows "(trendDirection (map Fin ps) (Fin s) (Fin l) = Bullish \<longleftrightarrow> last ps > s \<and> s > l)
       \<and> (trendDirection (map Fin ps) (Fin s) (Fin l) = Bearish \<longleftrightarrow> last ps \<le> s \<and> s \<le> l)
       \<and> (trendDirection (map Fin ps) (Fin s) (Fin l) = Neutral \<longleftrightarrow>
            \<not> (last ps > s \<and> s > l) \<and> \<not> (last ps \<le> s \<and> s \<le> l))"
proof -
  have ne: "ps \<noteq> []" using assms by auto
  have cur: "ps ! (length ps - Suc 0) = last ps"
    using ne by (simp add: last_conv_nth)
  have td: "trendDirection (map Fin ps) (Fin s) (Fin l) =
     (if last ps > s \<and> s > l then Bullish
      else if \<not> last ps > s \<and> \<not> s > l then Bearish else Neutral)"
    using assms by (simp add: trendDirection_def Let_def cur jgt_def)
  show ?thesis
    unfolding td by auto
qed

theorem trendDirection_cases_witness:
  "2 \<le> length [1, 3 :: real]
   \<and> trendDirection (map Fin [1, 3]) (Fin 2) (Fin 1) = Bullish
   \<and> trendDirection (map Fin [1, 3]) (Fin 3) (Fin 3) = Bearish
   \<and> trendDirection (map Fin [1, 3]) (Fin 2) (Fin 5) = Neutral"
  using trendDirection_cases [of "[1, 3]" 2 1] trendDirection_cases [of "[1, 3]" 3 3]
    trendDirection_cases [of "[1, 3]" 2 5]
  by simp

section \<open>What a fetch leaves alone\<close>


lemma attempts_tickerCache: "tickerCache (snd (attempts E auth ep n s)) = tickerCache s"
  by (induction n arbitrary: s) (simp_all add: Let_def split: outcome.splits)


lemma withRetry_tickerCache: "tickerCache (snd (withRetry E auth ep s)) = tickerCache s"
  by (simp add: withRetry_def attempts_tickerCache)


lemma tryEndpoints_tickerCache: "tickerCache (snd (tryEndpoints E auth eps s)) = tickerCache s"
proof (induction eps arbitrary: s)
  case Nil
  show ?case by simp
next
  case (Cons ep eps)
  obtain r s' where w: "withRetry E auth ep s = (r, s')" by (cases "withRetry E auth ep s")
  have "tickerCache s' = tickerCache s" using withRetry_tickerCache [of E auth ep s] w by simp
  then show ?case using Cons w by (cases r) simp_all
qed




section \<open>The cache and the rate limit\<close>

lemma checkRateLimit_refuses:
  "lastFetch s symbol = Some l \<Longrightarrow> clock s - l < 1000 \<Longrightarrow> checkRateLimit symbol s = (False, s)"
  by (simp add: checkRateLimit_def)

lemma fetchTicker_hit:
  assumes "tickerCache s (''ticker_'' @ symbol) = Some t" "clock s - tk_timestamp t < CACHE_DURATION"
  shows "fetchTicker E symbol s = (t, s)"
  using assms by (simp add: fetchTicker_def)

lemma fetchOrderbook_hit:
  assumes "orderbookCache s (''orderbook_'' @ symbol) = Some ob"
    "clock s - ob_timestamp ob < CACHE_DURATION"
  shows "fetchOrderbook E symbol s = (ob, s)"
  using assms by (simp add: fetchOrderbook_def)

lemma fetchKlines_refused:
  assumes "lastFetch s symbol = Some l" "clock s - l < 1000"
    "klinesCache s (klinesKey symbol interval limit) = Some ks"
  shows "fetchKlines E symbol interval limit s = (ks, s)"
  using assms by (simp add: fetchKlines_def checkRateLimit_refuses)

lemma fetchTrades_refused:
  assumes "lastFetch s symbol = Some l" "clock s - l < 1000"
    "tradesCache s (tradesKey symbol limit) = Some ts"
  shows "fetchTrades E symbol limit s = (ts, s)"
  using assms by (simp add: fetchTrades_def checkRateLimit_refuses)




section \<open>The two runs, step by step\<close>






lemma show_nat_200: "show_nat 200 = ''200''"
  by code_simp

lemma show_nat_50: "show_nat 50 = ''50''"
  by code_simp

lemmas klines_eval =
  fetchKlines_def fetchKlinesTry_def publicThenAuth_def withRetry_def
  checkRateLimit_def parseKline_def alias2_def parseFloatOr0_def mapArray_def klinesKey_def
  orJ_def newMarketDataService_def elapse_def trunc_def show_nat_200
  REQUEST_TIMEOUT_def MAX_RETRIES_def RETRY_DELAY_def
  Let_def numeral_3_eq_3 klinesEnv_def

lemma warmK_eq:
  "warmK =
     \<lparr>tickerCache = Map.empty, orderbookCache = Map.empty,
      klinesCache = [''klines_X_1m_200'' \<mapsto> candles], tradesCache = Map.empty,
      lastFetch = [''X'' \<mapsto> 10000], clock = 10000,
      netlog = [(False, ''/v1/public/futures/klines?symbol=X&interval=1m&limit=200'')],
      nrand = 0\<rparr>"
  by (simp add: warmK_def candles_def klines_eval)

lemma callK_netlog:
  "netlog (snd callK) =
     [(False, ''/v1/public/futures/klines?symbol=X&interval=1m&limit=200''),
      (False, ''/v1/public/futures/klines?symbol=X&interval=1m&limit=200'')]"
  by (simp add: callK_def warmK_eq candles_def klines_eval)

section \<open>Caching\<close>

text \<open>
  Claim C5, as stated: for each of the four fetch operations, an entry for the key that is
  younger than 2000 ms is returned without network access. \<open>fetchKlines\<close> does not keep
  this: the candles cached at time 10000 are asked for again at time 11500, and the call
  sends a request.
\<close>

theorem fetchKlines_fresh_entry_counterexample:
  "klinesCache (elapse 1500 warmK) (klinesKey ''X'' ''1m'' 200) = Some candles
   \<and> clock (elapse 1500 warmK) - clock (newMarketDataService 10000) < CACHE_DURATION
   \<and> requests (elapse 1500 warmK) (snd callK)
       = [(False, ''/v1/public/futures/klines?symbol=X&interval=1m&limit=200'')]"
  by (simp add: callK_netlog requests_def warmK_eq elapse_def klinesKey_def show_nat_200
      newMarketDataService_def CACHE_DURATION_def)

text \<open>
  Claim C5, amended: \<open>fetchTicker\<close> and \<open>fetchOrderbook\<close> return the entry cached for the
  key, without network access, when its age is less than 2000 ms. \<open>fetchKlines\<close> and
  \<open>fetchTrades\<close> do not look at the age of an entry: they return the entry cached for
  the key, without network access, when the rate limit refuses the call, that is less
  than 1000 ms after it last let a call for the symbol through.

  Each call returns the state it met: nothing has been sent and nothing has changed.
\<close>

theorem cache_short_circuit:
  "(tickerCache s (''ticker_'' @ symbol) = Some t \<longrightarrow>
      clock s - tk_timestamp t < CACHE_DURATION \<longrightarrow> fetchTicker E symbol s = (t, s))
   \<and> (orderbookCache s (''orderbook_'' @ symbol) = Some ob \<longrightarrow>
      clock s - ob_timestamp ob < CACHE_DURATION \<longrightarrow> fetchOrderbook E symbol s = (ob, s))
   \<and> (lastFetch s symbol = Some l \<longrightarrow> clock s - l < 1000 \<longrightarrow>
      klinesCache s (klinesKey symbol interval limit) = Some ks \<longrightarrow>
      fetchKlines E symbol interval limit s = (ks, s))
   \<and> (lastFetch s symbol = Some l \<longrightarrow> clock s - l < 1000 \<longrightarrow>
      tradesCache s (tradesKey symbol limit') = Some ts \<longrightarrow>
      fetchTrades E symbol limit' s = (ts, s))"
proof (intro conjI impI)
  show "fetchTicker E symbol s = (t, s)"
    if "tickerCache s (''ticker_'' @ symbol) = Some t" "clock s - tk_timestamp t < CACHE_DURATION"
    using that by (rule fetchTicker_hit)
  show "fetchOrderbook E symbol s = (ob, s)"
    if "orderbookCache s (''orderbook_'' @ symbol) = Some ob"
      "clock s - ob_timestamp ob < CACHE_DURATION"
    using that by (rule fetchOrderbook_hit)
  show "fetchKlines E symbol interval limit s = (ks, s)"
    if "lastFetch s symbol = Some l" "clock s - l < 1000"
      "klinesCache s (klinesKey symbol interval limit) = Some ks"
    using that by (rule fetchKlines_refused)
  show "fetchTrades E symbol limit' s = (ts, s)"
    if "lastFetch s symbol = Some l" "clock s - l < 1000"
      "tradesCache s (tradesKey symbol limit') = Some ts"
    using that by (rule fetchTrades_refused)
qed

theorem cache_short_circuit_witness:
  "fetchTicker upEnv ''X'' hot = (quote1, hot)
   \<and> fetchOrderbook upEnv ''X'' hot = (book1, hot)
   \<and> fetchKlines upEnv ''X'' ''1m'' 200 hot = (candles, hot)
   \<and> fetchTrades upEnv ''X'' 50 hot = ([], hot)"
  using cache_short_circuit [where s = hot and symbol = "''X''" and t = quote1 and ob = book1
      and l = 10000 and interval = "''1m''" and limit = 200 and ks = candles and limit' = 50
      and ts = "[]" and E = upEnv]
  by (simp add: hot_def quote1_def book1_def CACHE_DURATION_def klinesKey_def tradesKey_def
      show_nat_200 show_nat_50)

section \<open>Rate limiting\<close>




section \<open>Provenance of a market snapshot\<close>

text \<open>When no request succeeds and nothing is cached, the ticker is the mock ticker.\<close>

lemma attempts_unreachable:
  assumes "\<And>k a e. fst (net E k a e) = Reject"
  shows "fst (attempts E auth ep n s) = None"
  by (induction n arbitrary: s) (simp_all add: Let_def assms)

lemma tryEndpoints_unreachable:
  assumes "\<And>k a e. fst (net E k a e) = Reject"
  shows "fst (tryEndpoints E auth eps s) = JUndef"
proof (induction eps arbitrary: s)
  case Nil
  show ?case by simp
next
  case (Cons ep eps)
  obtain r s' where w: "withRetry E auth ep s = (r, s')" by (cases "withRetry E auth ep s")
  have "r = None"
    using attempts_unreachable [OF assms, of auth ep MAX_RETRIES s] w by (simp add: withRetry_def)
  then show ?case using Cons w by simp
qed

lemma fetchTickerTry_unreachable:
  assumes "\<And>k a e. fst (net E k a e) = Reject"
  shows "fst (fetchTickerTry E symbol s) = None"
  by (simp add: fetchTickerTry_def Let_def tryEndpoints_unreachable [OF assms])

lemma fetchTicker_unreachable:
  assumes "\<And>k a e. fst (net E k a e) = Reject"
    and "tickerCache s (''ticker_'' @ symbol) = None"
  shows "\<exists>s'. fetchTicker E symbol s = getMockTicker E symbol s'"
proof -
  obtain ok s1 where rl: "checkRateLimit symbol s = (ok, s1)"
    by (cases "checkRateLimit symbol s")
  obtain r s2 where t: "fetchTickerTry E symbol s1 = (r, s2)"
    by (cases "fetchTickerTry E symbol s1")
  have "r = None" using fetchTickerTry_unreachable [OF assms(1), of symbol s1] t by simp
  then show ?thesis
    using assms(2) rl t by (cases ok) (auto simp: fetchTicker_def Let_def)
qed

lemma getMarketData_isRealData: "isRealData (fst (getMarketData E symbol s))"
  by (simp add: getMarketData_def Let_def)

lemma marketRoute_status:
  "mr_status (fst (marketRoute E symbol s)) = 200
   \<and> isRealData (mr_body (fst (marketRoute E symbol s)))"
  by (simp add: marketRoute_def Let_def)

lemma down_ticker_is_mock:
  "\<exists>s'. fetchTicker downEnv ''PERP_BTC_USDC'' (newMarketDataService 1000000)
      = getMockTicker downEnv ''PERP_BTC_USDC'' s'"
proof -
  have down: "\<And>k a e. fst (net downEnv k a e) = Reject"
    by (simp add: downEnv_def)
  have empty: "tickerCache (newMarketDataService 1000000) (''ticker_'' @ ''PERP_BTC_USDC'') = None"
    by (simp add: newMarketDataService_def)
  show ?thesis
    using fetchTicker_unreachable [OF down empty] .
qed

text \<open>No snapshot that \<open>getMarketData\<close> returns is one that \<open>getMockMarketData\<close> builds.\<close>

lemma getMarketData_never_mock:
  "fst (getMarketData E symbol s) \<noteq> fst (getMockMarketData E' symbol' s')"
proof
  assume "fst (getMarketData E symbol s) = fst (getMockMarketData E' symbol' s')"
  then have "isRealData (fst (getMarketData E symbol s))
           = isRealData (fst (getMockMarketData E' symbol' s'))" by simp
  then show False by (simp add: getMarketData_def getMockMarketData_def Let_def)
qed

text \<open>
  Claim C2: when every real-data attempt fails and mock data is substituted, the snapshot
  carries \<open>isRealData = false\<close> and the route answers 206; a snapshot with
  \<open>isRealData = true\<close> holds only what the exchange has sent.

  The code does not do that. With the exchange out of reach and an empty cache, every
  request for \<open>PERP_BTC_USDC\<close> is rejected; the snapshot holds the price 65000 of the
  base-price table with the mock high and low around it, and carries \<open>isRealData = true\<close>;
  the route answers 200 with the same mock data and the same flag. \<open>fetchTicker\<close> and
  \<open>fetchOrderbook\<close> have replaced the failure by mock data themselves, so the \<open>catch\<close>
  that would set the flag to false and the status to 206 is never entered.
\<close>

theorem getMarketData_mock_marked_real:
  "ms_price (fst (getMarketData downEnv ''PERP_BTC_USDC'' (newMarketDataService 1000000)))
     = Fin 65000
   \<and> ms_high (fst (getMarketData downEnv ''PERP_BTC_USDC'' (newMarketDataService 1000000)))
     = Fin 65975
   \<and> ms_low (fst (getMarketData downEnv ''PERP_BTC_USDC'' (newMarketDataService 1000000)))
     = Fin 64025
   \<and> isRealData (fst (getMarketData downEnv ''PERP_BTC_USDC'' (newMarketDataService 1000000)))
   \<and> mr_status (fst (marketRoute downEnv ''PERP_BTC_USDC'' (newMarketDataService 1000000)))
     = 200
   \<and> ms_price (mr_body (fst (marketRoute downEnv ''PERP_BTC_USDC''
        (newMarketDataService 1000000)))) = Fin 65000
   \<and> isRealData (mr_body (fst (marketRoute downEnv ''PERP_BTC_USDC''
        (newMarketDataService 1000000))))"
  using down_ticker_is_mock
  by (auto simp: getMarketData_def marketRoute_def Let_def getMockTicker_def getBasePrice_def)

section \<open>Subscription lifecycle\<close>

lemmas wsm_eval =
  run_def subscribeToSymbol_def unsubscribeFromSymbol_def startPolling_def setInterval_def
  clearInterval_def join_def leave_def newWebSocketManager_def firing_def subscribers_def Let_def

text \<open>
  Claim C1: once the last subscriber of a symbol disconnects, the 2000 ms price-update
  timer and the 30000 ms alert timer of the symbol stop firing.

  The code stops neither when the subscriber disconnects, and only the alert timer when
  it unsubscribes. Socket 1 subscribes to \<open>PERP_BTC_USDC\<close> and disconnects: nobody is
  subscribed, and both timers are still registered, because the \<open>disconnect\<close> handler only
  writes a log line. Socket 1 subscribes and unsubscribes: nobody is subscribed, the alert
  timer is cleared, and the price-update timer is still registered, because the function
  that \<open>startPolling\<close> returns to stop it is never called.
\<close>

theorem timers_survive_last_subscriber:
  "subscribers (run [SubscribeSymbol 1 ''PERP_BTC_USDC'', Disconnect 1]) ''PERP_BTC_USDC'' = {}
   \<and> firing (run [SubscribeSymbol 1 ''PERP_BTC_USDC'', Disconnect 1]) ''PERP_BTC_USDC''
       = [PriceUpdate, Alerts]
   \<and> subscribers (run [SubscribeSymbol 1 ''PERP_BTC_USDC'',
        UnsubscribeSymbol 1 ''PERP_BTC_USDC'']) ''PERP_BTC_USDC'' = {}
   \<and> firing (run [SubscribeSymbol 1 ''PERP_BTC_USDC'',
        UnsubscribeSymbol 1 ''PERP_BTC_USDC'']) ''PERP_BTC_USDC'' = [PriceUpdate]"
  by (simp add: wsm_eval)


text \<open>
  No event clears a price-update timer: once registered it is registered after every
  further sequence of events.
\<close>

lemma handles_ok_new: "handles_ok newWebSocketManager"
  by (simp add: handles_ok_def newWebSocketManager_def)

lemma handles_ok_rooms: "handles_ok (s\<lparr>rooms := r\<rparr>) = handles_ok s"
  by (simp add: handles_ok_def)

lemma subscribeToSymbol_ok:
  assumes "handles_ok s"
  shows "handles_ok (subscribeToSymbol symbol s)"
  using assms
  by (auto simp: handles_ok_def subscribeToSymbol_def startPolling_def setInterval_def Let_def
      less_Suc_eq dest: less_SucI)

lemma unsubscribeFromSymbol_ok:
  assumes "handles_ok s"
  shows "handles_ok (unsubscribeFromSymbol symbol s)"
  using assms
  by (auto simp: handles_ok_def unsubscribeFromSymbol_def clearInterval_def Let_def
      split: option.splits)

lemma handle_ok:
  assumes "handles_ok s"
  shows "handles_ok (handle s e)"
  using assms
  by (cases e)
    (simp_all add: join_def leave_def handles_ok_rooms subscribeToSymbol_ok
      unsubscribeFromSymbol_ok)

lemma subscribeToSymbol_keeps: "t \<in> set (timers s) \<Longrightarrow> t \<in> set (timers (subscribeToSymbol symbol s))"
  by (simp add: subscribeToSymbol_def startPolling_def setInterval_def Let_def)

lemma unsubscribeFromSymbol_keeps:
  assumes "handles_ok s" "t \<in> set (timers s)" "tm_kind t = PriceUpdate"
  shows "t \<in> set (timers (unsubscribeFromSymbol symbol s))"
  using assms
  by (auto simp: handles_ok_def unsubscribeFromSymbol_def clearInterval_def Let_def
      split: option.splits)

lemma handle_keeps:
  assumes "handles_ok s" "t \<in> set (timers s)" "tm_kind t = PriceUpdate"
  shows "t \<in> set (timers (handle s e))"
proof (cases e)
  case (SubscribeSymbol socket symbol)
  then show ?thesis using assms(2) by (simp add: join_def subscribeToSymbol_keeps)
next
  case (UnsubscribeSymbol socket symbol)
  have ok: "handles_ok (leave socket (''symbol-'' @ symbol) s)"
    using assms(1) by (simp add: leave_def handles_ok_rooms)
  have "t \<in> set (timers (leave socket (''symbol-'' @ symbol) s))"
    using assms(2) by (simp add: leave_def)
  then show ?thesis
    using UnsubscribeSymbol ok assms(3) by (simp add: unsubscribeFromSymbol_keeps)
next
  case (SubscribeAlerts socket wallet)
  then show ?thesis using assms(2) by (simp add: join_def)
next
  case (Disconnect socket)
  then show ?thesis using assms(2) by simp
qed

lemma foldl_handle_keeps:
  assumes "handles_ok s" "t \<in> set (timers s)" "tm_kind t = PriceUpdate"
  shows "t \<in> set (timers (foldl handle s es))"
  using assms
  by (induction es arbitrary: s) (simp_all add: handle_ok handle_keeps)

lemma foldl_handle_ok: "handles_ok s \<Longrightarrow> handles_ok (foldl handle s es)"
  by (induction es arbitrary: s) (simp_all add: handle_ok)

lemma price_timer_never_cleared:
  assumes "t \<in> set (timers (run es))" "tm_kind t = PriceUpdate"
  shows "t \<in> set (timers (run (es @ es')))"
proof -
  have "handles_ok (run es)"
    unfolding run_def by (rule foldl_handle_ok) (rule handles_ok_new)
  then show ?thesis
    using assms foldl_handle_keeps [of "run es" t es'] by (simp add: run_def)
qed

section \<open>The chat service and its route\<close>






text \<open>A request without a body that could be parsed is answered 500.\<close>

lemma chatRoute_no_body:
  "chatRoute pm JUndef =
     (\<lparr>ch_status = 500,
       ch_body = ErrorWithReply ''Failed to process AI chat request''
                   ''Sorry, I encountered an error. Please try again.''\<rparr>, [])"
  by (simp add: chatRoute_def)

text \<open>
  Claim C10: \<open>POST /api/ai/chat\<close> answers 400 when one of \<open>message\<close>, \<open>wallet\<close> and
  \<open>symbol\<close> is absent from the body, and also when one of them is the empty string; the
  answer then holds the error field only, and \<open>processMessage\<close> has not been called. The
  request has a body: \<open>req.body\<close> is not undefined.
\<close>

theorem chatRoute_missing_field:
  assumes "body \<noteq> JUndef"
    and "k \<in> {''message'', ''wallet'', ''symbol''}"
    and "field body k = JUndef \<or> field body k = JStr ''''"
  shows "chatRoute pm body =
     (\<lparr>ch_status = 400,
       ch_body = ErrorOnly ''Missing required fields: message, wallet, symbol''\<rparr>, [])"
proof -
  have "\<not> truthy (field body k)" using assms(3) by auto
  then have "\<not> truthy (field body ''message'') \<or> \<not> truthy (field body ''wallet'')
      \<or> \<not> truthy (field body ''symbol'')"
    using assms(2) by auto
  then show ?thesis
    using assms(1) by (simp add: chatRoute_def Let_def)
qed

theorem chatRoute_missing_field_witness:
  "chatRoute (\<lambda>m w s. Inr (fallbackResponse ''X''))
     (JObj [(''message'', JStr ''analyze market''), (''wallet'', JStr ''''),
            (''symbol'', JStr ''X'')])
   = (\<lparr>ch_status = 400,
       ch_body = ErrorOnly ''Missing required fields: message, wallet, symbol''\<rparr>, [])
   \<and> chatRoute (\<lambda>m w s. Inr (fallbackResponse ''X''))
     (JObj [(''message'', JStr ''analyze market''), (''wallet'', JStr ''0xabc'')])
   = (\<lparr>ch_status = 400,
       ch_body = ErrorOnly ''Missing required fields: message, wallet, symbol''\<rparr>, [])"
  using chatRoute_missing_field [of
      "JObj [(''message'', JStr ''analyze market''), (''wallet'', JStr ''''),
             (''symbol'', JStr ''X'')]"
      "''wallet''" "\<lambda>m w s. Inr (fallbackResponse ''X'')"]
    chatRoute_missing_field [of
      "JObj [(''message'', JStr ''analyze market''), (''wallet'', JStr ''0xabc'')]"
      "''symbol''" "\<lambda>m w s. Inr (fallbackResponse ''X'')"]
  by simp

text \<open>The route answers 400 exactly when there is a body and one of the three fields is falsy.\<close>

lemma chatRoute_400_iff:
  "ch_status (fst (chatRoute pm body)) = 400 \<longleftrightarrow>
     body \<noteq> JUndef
     \<and> (\<not> truthy (field body ''message'') \<or> \<not> truthy (field body ''wallet'')
        \<or> \<not> truthy (field body ''symbol''))"
  by (auto simp: chatRoute_def Let_def split: sum.splits)

end
